theory Spec2Isabelle
  imports Main "HOL-Library.Word"
begin

section \<open>JavaScript values, objects and strings\<close>

text \<open>
  The client in \<^verbatim>\<open>src/index.ts\<close> shapes plain JavaScript objects and hands them to
  three libraries: \<^verbatim>\<open>qs\<close> (query strings), \<^verbatim>\<open>crypto\<close> (hashes) and \<^verbatim>\<open>axios\<close> (HTTP).
  An earlier copy of the agent (\<^verbatim>\<open>src/unnamed/part_001\<close>) has the same \<^verbatim>\<open>signMessage\<close>
  and \<^verbatim>\<open>postToPrivateEndpoint\<close>, word for word; the line numbers below are those of
  \<^verbatim>\<open>src/index.ts\<close>.

  The values that occur in request bodies are strings, numbers, booleans and
  \<^verbatim>\<open>undefined\<close>. A JavaScript number is an IEEE double; the model holds the
  integer-valued ones, as integers. Every number the client itself produces (the
  nonce, the defaults) is one.
\<close>

datatype jsval = Undefined | Str string | Num int | Bool bool

text \<open>
  An object is the list of its own enumerable properties in insertion order, the
  order in which a spread copies them and a serialiser walks them. Keys of an
  object are distinct.
\<close>

type_synonym jsobj = "(string \<times> jsval) list"

text \<open>Reading a property: \<^verbatim>\<open>o.k\<close> or \<^verbatim>\<open>o['k']\<close>; a missing property reads \<^verbatim>\<open>undefined\<close>.\<close>

definition get :: "jsobj \<Rightarrow> string \<Rightarrow> jsval" where
  "get obj k = (case map_of obj k of None \<Rightarrow> Undefined | Some v \<Rightarrow> v)"

text \<open>
  Writing a property: \<^verbatim>\<open>o['k'] = v\<close>. An existing property keeps its position,
  a new one goes last.
\<close>

fun set_prop :: "string \<Rightarrow> jsval \<Rightarrow> jsobj \<Rightarrow> jsobj" where
  "set_prop k v [] = [(k, v)]"
| "set_prop k v ((k', v') # ps) =
     (if k = k' then (k, v) # ps else (k', v') # set_prop k v ps)"

text \<open>
  Object spread: \<^verbatim>\<open>{ ...a, ...b }\<close> copies the properties of \<^verbatim>\<open>a\<close>, then writes
  those of \<^verbatim>\<open>b\<close> over them, one after the other.
\<close>

definition spread :: "jsobj \<Rightarrow> jsobj \<Rightarrow> jsobj" where
  "spread a b = fold (\<lambda>(k, v). set_prop k v) b a"

subsection \<open>Bytes and the two string encodings the signer uses\<close>

type_synonym byte = "8 word"

text \<open>
  A \<^typ>\<open>char\<close> stands for a code point below 256. The \<^verbatim>\<open>latin1\<close> encoding maps
  such a character to the byte of the same value and back; it is the encoding of
  \<^verbatim>\<open>digest('latin1')\<close> and of \<^verbatim>\<open>update(s, 'latin1')\<close>.
\<close>

definition char_of_byte :: "byte \<Rightarrow> char" where
  "char_of_byte b = char_of (unat b)"

definition byte_of_char :: "char \<Rightarrow> byte" where
  "byte_of_char c = of_nat (of_char c)"

definition latin1_decode :: "byte list \<Rightarrow> string" where
  "latin1_decode bs = map char_of_byte bs"

definition latin1_encode :: "string \<Rightarrow> byte list" where
  "latin1_encode s = map byte_of_char s"

text \<open>
  \<^verbatim>\<open>hash.update(s)\<close> without an encoding argument reads the string as UTF-8: one
  byte for a code point below 128, two bytes for the others below 256.
\<close>

definition utf8_char :: "char \<Rightarrow> byte list" where
  "utf8_char c =
     (let n = (of_char c :: nat)
      in if n < 128 then [of_nat n]
         else [of_nat (192 + n div 64), of_nat (128 + n mod 64)])"

definition utf8_encode :: "string \<Rightarrow> byte list" where
  "utf8_encode s = concat (map utf8_char s)"

section \<open>The libraries the client calls\<close>

text \<open>
  The library functions are not part of the repository; the model takes them as
  parameters, and every theorem below holds for whatever they compute.
  \<^item> \<open>qs_stringify\<close>: \<^verbatim>\<open>qs.stringify(obj)\<close>; the argument may be absent
    (\<^verbatim>\<open>undefined\<close> or \<^verbatim>\<open>null\<close>).
  \<^item> \<open>buffer_from_base64\<close>: \<^verbatim>\<open>new Buffer(s, 'base64')\<close>. Node's decoder rejects no
    input (it passes over what it cannot decode), so the constructor returns a
    buffer for every string: a total function.
  \<^item> \<open>sha256\<close>: \<^verbatim>\<open>crypto.createHash('sha256').update(bytes).digest()\<close>.
  \<^item> \<open>hmac_sha512\<close>: \<^verbatim>\<open>crypto.createHmac('sha512', key).update(bytes).digest()\<close>.
  \<^item> \<open>base64_encode\<close>: the \<^verbatim>\<open>'base64'\<close> rendering of a digest.
  \<^item> \<open>big_number_to_string\<close>: the string form of a number whose magnitude exceeds
    \<open>2\<^sup>5\<^sup>3\<close>. There the runtime prints the shortest digits that read back as the
    same double, and an exponent from \<open>10\<^sup>2\<^sup>1\<close> on; the model does not compute
    them.
\<close>

record library =
  qs_stringify :: "jsobj option \<Rightarrow> string"
  buffer_from_base64 :: "string \<Rightarrow> byte list"
  sha256 :: "byte list \<Rightarrow> byte list"
  hmac_sha512 :: "byte list \<Rightarrow> byte list \<Rightarrow> byte list"
  base64_encode :: "byte list \<Rightarrow> string"
  big_number_to_string :: "int \<Rightarrow> string"

section \<open>Numbers and their string form\<close>

text \<open>
  Decimal digits of a natural number, most significant first. \<open>digit\<close> is only
  applied to numbers below ten.
\<close>

definition digit :: "nat \<Rightarrow> char" where
  "digit d = ''0123456789'' ! d"

fun digits :: "nat \<Rightarrow> string" where
  "digits n =
     (if n < 10 then [digit n]
      else digits (n div 10) @ [digit (n mod 10)])"

declare digits.simps [simp del]

definition decimal :: "int \<Rightarrow> string" where
  "decimal i = (if i < 0 then CHR ''-'' # digits (nat (- i)) else digits (nat i))"

text \<open>
  Number to string, as string concatenation and template literals do it. Every
  integer up to \<open>2\<^sup>5\<^sup>3 = 9007199254740992\<close> in magnitude is a double of its own and is
  printed in plain decimal, digit for digit. Beyond that the printing is the
  runtime's.
\<close>

definition number_to_string :: "library \<Rightarrow> int \<Rightarrow> string" where
  "number_to_string L i =
     (if \<bar>i\<bar> \<le> 9007199254740992 then decimal i else big_number_to_string L i)"

fun to_string :: "library \<Rightarrow> jsval \<Rightarrow> string" where
  "to_string L Undefined = ''undefined''"
| "to_string L (Str s) = s"
| "to_string L (Num i) = number_to_string L i"
| "to_string L (Bool b) = (if b then ''true'' else ''false'')"

section \<open>The signer\<close>

text \<open>
  \<^verbatim>\<open>signMessage\<close> (\<^verbatim>\<open>src/index.ts\<close>, lines 73 to 86):
  \<^verbatim>\<open>
  const message      = qs.stringify(postBody);
  const decryptedKey = new Buffer(privateKey, 'base64');
  const hashDigest = crypto.createHash('sha256')
                           .update(postBody.nonce + message)
                           .digest('latin1');
  return crypto.createHmac('sha512', decryptedKey)
               .update(path + hashDigest, 'latin1')
               .digest('base64');
  \<close>
  \<^verbatim>\<open>postBody.nonce + message\<close> adds a value to a string, which concatenates the
  value's string form with it.
\<close>

definition signMessage :: "library \<Rightarrow> string \<Rightarrow> jsobj \<Rightarrow> string \<Rightarrow> string" where
  "signMessage L path postBody privateKey =
     (let message = qs_stringify L (Some postBody);
          decryptedKey = buffer_from_base64 L privateKey;
          hashDigest =
            latin1_decode
              (sha256 L (utf8_encode (to_string L (get postBody ''nonce'') @ message)))
      in base64_encode L (hmac_sha512 L decryptedKey (latin1_encode (path @ hashDigest))))"

section \<open>Configuration and requests\<close>

text \<open>
  \<^verbatim>\<open>defaultConfig\<close> (lines 14 to 18) is an ordinary object; a per-call override is
  spread over it.
\<close>

definition defaultConfig :: jsobj where
  "defaultConfig =
     [(''rootUrl'', Str ''https://api.kraken.com''),
      (''timeout'', Num 15000),
      (''version'', Num 0)]"

text \<open>
  The request configuration handed to \<^verbatim>\<open>axios\<close>. The client only ever sets these six
  fields; \<open>url\<close> and \<open>data\<close> are absent from the default agent configuration.
\<close>

record request =
  baseURL :: jsval
  headers :: jsobj
  http_method :: string
  timeout :: jsval
  url :: "string option"
  data :: "string option"

definition defaultAgentConfig :: request where
  "defaultAgentConfig =
     \<lparr>baseURL = get defaultConfig ''rootUrl'',
      headers =
        [(''User-Agent'', Str ''Kraken API Client (kraken-cryptoexchange-api node package)'')],
      http_method = ''GET'',
      timeout = get defaultConfig ''timeout'',
      url = None,
      data = None\<rparr>"


definition privateAgentConfig :: request where
  "privateAgentConfig = defaultAgentConfig\<lparr>http_method := ''POST''\<rparr>"

text \<open>Spreading an absent object (\<^verbatim>\<open>...undefined\<close>) copies nothing.\<close>

definition own_props :: "jsobj option \<Rightarrow> jsobj" where
  "own_props obj = (case obj of None \<Rightarrow> [] | Some ps \<Rightarrow> ps)"

text \<open>
  Both endpoint functions start with the same line,
  \<^verbatim>\<open>const config = { ...defaultConfig, ...configOverride };\<close>
\<close>

definition merge_config :: "jsobj option \<Rightarrow> jsobj" where
  "merge_config configOverride = spread (spread [] defaultConfig) (own_props configOverride)"

section \<open>The request agent\<close>

record IApiAuth =
  publicKey :: string
  privateKey :: string

text \<open>
  The state a call can read or change: the agent's \<^verbatim>\<open>auth\<close> property, and the
  requests handed to the transport so far (a history kept by the model, so that
  ``no network attempt'' can be stated).
\<close>

record state =
  auth :: "IApiAuth option"
  sent :: "request list"

text \<open>
  How a promise returned by the client is rejected: with a reason given to
  \<^verbatim>\<open>Promise.reject\<close>, by a \<^verbatim>\<open>TypeError\<close> thrown inside the \<^verbatim>\<open>async\<close> function, or
  with whatever the transport rejected with.
\<close>

datatype 'e rejection = Rejected string | TypeError | TransportError 'e

text \<open>The transport: \<^verbatim>\<open>axios(agentConfig)\<close> settles with a response or an error.\<close>

type_synonym ('e, 'r) transport = "request \<Rightarrow> 'e + 'r"

text \<open>\<^verbatim>\<open>return Promise.resolve(await axios(agentConfig))\<close>: one call of the transport.\<close>

definition await_axios ::
  "('e, 'r) transport \<Rightarrow> request \<Rightarrow> state \<Rightarrow> ('e rejection + 'r) \<times> state" where
  "await_axios axios agentConfig s =
     ((case axios agentConfig of Inl e \<Rightarrow> Inl (TransportError e) | Inr r \<Rightarrow> Inr r),
      s\<lparr>sent := sent s @ [agentConfig]\<rparr>)"

text \<open>\<^verbatim>\<open>getRawAgent(auth)\<close>: a fresh agent; nothing has been sent yet.\<close>

definition getRawAgent :: "IApiAuth option \<Rightarrow> state" where
  "getRawAgent a = \<lparr>auth = a, sent = []\<rparr>"

text \<open>
  \<^verbatim>\<open>isUpgraded(): boolean { return this.auth; }\<close> returns the stored credentials
  themselves; callers read the result as a condition, where an object counts as
  true and \<^verbatim>\<open>undefined\<close> as false.
\<close>

definition isUpgraded :: "state \<Rightarrow> IApiAuth option" where
  "isUpgraded s = auth s"

definition truthy :: "'a option \<Rightarrow> bool" where
  "truthy v = (v \<noteq> None)"

text \<open>\<^verbatim>\<open>upgrade(newAuth: IApiAuth): void { this.auth = newAuth; }\<close>\<close>

definition upgrade :: "IApiAuth \<Rightarrow> state \<Rightarrow> state" where
  "upgrade newAuth s = s\<lparr>auth := Some newAuth\<rparr>"


text \<open>
  \<^verbatim>\<open>postToPrivateEndpoint\<close> (lines 174 to 199):
  \<^verbatim>\<open>
  if (!this.isUpgraded()) return Promise.reject(`api keys are required to access private endpoints`);
  const config = { ...defaultConfig, ...configOverride };
  const uri = `/${config.version}/private/${endpoint}`;
  const headers = {
      ...privateAgentConfig.headers,
      'API-Key' : this.auth.publicKey,
      'API-Sign': this.signMessage(uri, data, this.auth.privateKey),
  };
  const agentConfig = { ...privateAgentConfig, headers, url: uri, data: qs.stringify(data) };
  return Promise.resolve(await axios(agentConfig));
  \<close>
  The parameter \<^verbatim>\<open>data\<close> is called \<open>postBody\<close> here.
\<close>

definition postToPrivateEndpoint ::
  "library \<Rightarrow> ('e, 'r) transport \<Rightarrow> string \<Rightarrow> jsobj \<Rightarrow> jsobj option \<Rightarrow> state
     \<Rightarrow> ('e rejection + 'r) \<times> state" where
  "postToPrivateEndpoint L axios endpoint postBody configOverride s =
     (case isUpgraded s of
        None \<Rightarrow> (Inl (Rejected ''api keys are required to access private endpoints''), s)
      | Some a \<Rightarrow>
          (let config = merge_config configOverride;
               uri = ''/'' @ to_string L (get config ''version'') @ ''/private/'' @ endpoint;
               hdrs =
                 set_prop ''API-Sign'' (Str (signMessage L uri postBody (privateKey a)))
                   (set_prop ''API-Key'' (Str (publicKey a))
                      (spread [] (headers privateAgentConfig)));
               agentConfig =
                 privateAgentConfig
                   \<lparr>headers := hdrs, url := Some uri,
                    data := Some (qs_stringify L (Some postBody))\<rparr>
           in await_axios axios agentConfig s))"

section \<open>The nonce generator\<close>

text \<open>
  The product of two doubles is the exact product rounded to the nearest double,
  a tie going to the even significand. For an integer \<open>x\<close> that is: drop as many
  low bits as \<open>\<bar>x\<bar>\<close> has beyond 53, and round what was dropped. \<open>excess_bits\<close>
  counts the bits beyond 53. (The products below stay far from the largest
  double, so nothing overflows.)
\<close>

function excess_bits :: "nat \<Rightarrow> nat" where
  "excess_bits m = (if m < 9007199254740992 then 0 else Suc (excess_bits (m div 2)))"
  by pat_completeness auto
termination
  by (relation "measure (\<lambda>m. m)") auto

declare excess_bits.simps [simp del]

definition round_to_double :: "int \<Rightarrow> int" where
  "round_to_double x =
     (let m = nat \<bar>x\<bar>;
          sh = excess_bits m;
          q = m div 2 ^ sh;
          r = m mod 2 ^ sh;
          q' = (if 2 ^ sh < 2 * r \<or> (2 * r = 2 ^ sh \<and> odd q) then q + 1 else q)
      in sgn x * int (q' * 2 ^ sh))"

text \<open>
  \<^verbatim>\<open>export const generateNonce = (): number => Date.now() * 1000;\<close>
  The argument is the value \<^verbatim>\<open>Date.now()\<close> returns in this call: the wall clock in
  milliseconds, an integer (of magnitude at most \<open>8.64 \<times> 10\<^sup>1\<^sup>5\<close>, a double of its
  own). The result is the double product.
\<close>

definition generateNonce :: "int \<Rightarrow> int" where
  "generateNonce now = round_to_double (now * 1000)"

text \<open>Successive calls, given the clock reading of each.\<close>

definition nonces :: "int list \<Rightarrow> int list" where
  "nonces clock_readings = map generateNonce clock_readings"

section \<open>The client's endpoint methods\<close>

text \<open>
  The client made by \<^verbatim>\<open>getClient(auth)\<close> holds one agent,
  \<^verbatim>\<open>rawAgent: getRawAgent(auth)\<close>; its \<^verbatim>\<open>isUpgraded\<close> and \<^verbatim>\<open>upgrade\<close> call the agent's,
  so the state of the agent is the state of the client. Each endpoint method
  shapes a parameter object and delegates to the agent. \<open>now\<close> is the clock reading
  of the method's call of \<^verbatim>\<open>generateNonce\<close>. A parameter declared optional
  (\<^verbatim>\<open>queryParams?\<close>) is a \<^typ>\<open>jsobj option\<close>; a required one is an object.
\<close>

definition getAccountBalance ::
  "library \<Rightarrow> ('e, 'r) transport \<Rightarrow> int \<Rightarrow> state \<Rightarrow> ('e rejection + 'r) \<times> state" where
  "getAccountBalance L axios now s =
     (let nonce = generateNonce now;
          params = [(''nonce'', Num nonce)]
      in postToPrivateEndpoint L axios ''Balance'' params None s)"

text \<open>
  The methods with an optional parameter object have this shape (here
  \<^verbatim>\<open>getTradeBalance\<close>, lines 426 to 434); the others below differ in the fields they
  pick and in the endpoint.
  \<^verbatim>\<open>
  const nonce  = generateNonce();
  const params = queryParams ?
                 (({ aclass, asset }) => ({ nonce, aclass, asset }))(queryParams) :
                 { nonce };
  return this.rawAgent.postToPrivateEndpoint('TradeBalance', params);
  \<close>
  \<^verbatim>\<open>queryOrdersInfo\<close> declares its parameter required and tests it all the same, so it
  has this shape too. The methods that destructure without a test
  (\<^verbatim>\<open>queryTradesInfo\<close>, \<^verbatim>\<open>getOpenPositions\<close>, \<^verbatim>\<open>queryLedgers\<close>, and further down
  \<^verbatim>\<open>cancelOpenOrder\<close>) take an object.
\<close>

definition getTradeBalance ::
  "library \<Rightarrow> ('e, 'r) transport \<Rightarrow> int \<Rightarrow> jsobj option \<Rightarrow> state
     \<Rightarrow> ('e rejection + 'r) \<times> state" where
  "getTradeBalance L axios now queryParams s =
     (let nonce = generateNonce now;
          params =
            (case queryParams of
               Some q \<Rightarrow>
                 [(''nonce'', Num nonce),
                  (''aclass'', get q ''aclass''),
                  (''asset'', get q ''asset'')]
             | None \<Rightarrow> [(''nonce'', Num nonce)])
      in postToPrivateEndpoint L axios ''TradeBalance'' params None s)"

definition getOpenOrders ::
  "library \<Rightarrow> ('e, 'r) transport \<Rightarrow> int \<Rightarrow> jsobj option \<Rightarrow> state
     \<Rightarrow> ('e rejection + 'r) \<times> state" where
  "getOpenOrders L axios now queryParams s =
     (let nonce = generateNonce now;
          params =
            (case queryParams of
               Some q \<Rightarrow>
                 [(''nonce'', Num nonce),
                  (''trades'', get q ''trades''),
                  (''userref'', get q ''userref'')]
             | None \<Rightarrow> [(''nonce'', Num nonce)])
      in postToPrivateEndpoint L axios ''OpenOrders'' params None s)"

definition getClosedOrders ::
  "library \<Rightarrow> ('e, 'r) transport \<Rightarrow> int \<Rightarrow> jsobj option \<Rightarrow> state
     \<Rightarrow> ('e rejection + 'r) \<times> state" where
  "getClosedOrders L axios now queryParams s =
     (let nonce = generateNonce now;
          params =
            (case queryParams of
               Some q \<Rightarrow>
                 [(''nonce'', Num nonce),
                  (''trades'', get q ''trades''),
                  (''userref'', get q ''userref''),
                  (''start'', get q ''start''),
                  (''end'', get q ''end''),
                  (''ofs'', get q ''ofs''),
                  (''closetime'', get q ''closetime'')]
             | None \<Rightarrow> [(''nonce'', Num nonce)])
      in postToPrivateEndpoint L axios ''ClosedOrders'' params None s)"

definition queryOrdersInfo ::
  "library \<Rightarrow> ('e, 'r) transport \<Rightarrow> int \<Rightarrow> jsobj option \<Rightarrow> state
     \<Rightarrow> ('e rejection + 'r) \<times> state" where
  "queryOrdersInfo L axios now queryParams s =
     (let nonce = generateNonce now;
          params =
            (case queryParams of
               Some q \<Rightarrow>
                 [(''nonce'', Num nonce),
                  (''trades'', get q ''trades''),
                  (''userref'', get q ''userref''),
                  (''txid'', get q ''txid'')]
             | None \<Rightarrow> [(''nonce'', Num nonce)])
      in postToPrivateEndpoint L axios ''QueryOrders'' params None s)"

definition getTradesHistory ::
  "library \<Rightarrow> ('e, 'r) transport \<Rightarrow> int \<Rightarrow> jsobj option \<Rightarrow> state
     \<Rightarrow> ('e rejection + 'r) \<times> state" where
  "getTradesHistory L axios now queryParams s =
     (let nonce = generateNonce now;
          params =
            (case queryParams of
               Some q \<Rightarrow>
                 [(''nonce'', Num nonce),
                  (''type'', get q ''type''),
                  (''trades'', get q ''trades''),
                  (''start'', get q ''start''),
                  (''end'', get q ''end''),
                  (''ofs'', get q ''ofs'')]
             | None \<Rightarrow> [(''nonce'', Num nonce)])
      in postToPrivateEndpoint L axios ''TradesHistory'' params None s)"

definition queryTradesInfo ::
  "library \<Rightarrow> ('e, 'r) transport \<Rightarrow> int \<Rightarrow> jsobj \<Rightarrow> state
     \<Rightarrow> ('e rejection + 'r) \<times> state" where
  "queryTradesInfo L axios now queryParams s =
     (let nonce = generateNonce now;
          params =
            [(''nonce'', Num nonce),
             (''txid'', get queryParams ''txid''),
             (''trades'', get queryParams ''trades'')]
      in postToPrivateEndpoint L axios ''QueryTrades'' params None s)"

definition getOpenPositions ::
  "library \<Rightarrow> ('e, 'r) transport \<Rightarrow> int \<Rightarrow> jsobj \<Rightarrow> state
     \<Rightarrow> ('e rejection + 'r) \<times> state" where
  "getOpenPositions L axios now queryParams s =
     (let nonce = generateNonce now;
          params =
            [(''nonce'', Num nonce),
             (''txid'', get queryParams ''txid''),
             (''docalcs'', get queryParams ''docalcs'')]
      in postToPrivateEndpoint L axios ''OpenPositions'' params None s)"

definition getLedgersInfo ::
  "library \<Rightarrow> ('e, 'r) transport \<Rightarrow> int \<Rightarrow> jsobj option \<Rightarrow> state
     \<Rightarrow> ('e rejection + 'r) \<times> state" where
  "getLedgersInfo L axios now queryParams s =
     (let nonce = generateNonce now;
          params =
            (case queryParams of
               Some q \<Rightarrow>
                 [(''nonce'', Num nonce),
                  (''aclass'', get q ''aclass''),
                  (''asset'', get q ''asset''),
                  (''type'', get q ''type''),
                  (''start'', get q ''start''),
                  (''end'', get q ''end''),
                  (''ofs'', get q ''ofs'')]
             | None \<Rightarrow> [(''nonce'', Num nonce)])
      in postToPrivateEndpoint L axios ''Ledgers'' params None s)"

definition queryLedgers ::
  "library \<Rightarrow> ('e, 'r) transport \<Rightarrow> int \<Rightarrow> jsobj \<Rightarrow> state
     \<Rightarrow> ('e rejection + 'r) \<times> state" where
  "queryLedgers L axios now queryParams s =
     (let nonce = generateNonce now;
          params =
            [(''nonce'', Num nonce),
             (''id'', get queryParams ''id'')]
      in postToPrivateEndpoint L axios ''QueryLedgers'' params None s)"

text \<open>
  \<^verbatim>\<open>getTradeVolume\<close> (lines 510 to 523):
  \<^verbatim>\<open>
  const nonce  = generateNonce();
  const params = queryParams ? (({ pair }) => ({ nonce, pair }))(queryParams) : { nonce };
  params['fee-info'] = queryParams['fee-info'];
  return this.rawAgent.postToPrivateEndpoint('TradeVolume', params);
  \<close>
  Reading a property of \<^verbatim>\<open>undefined\<close> throws a \<^verbatim>\<open>TypeError\<close>, which rejects the promise
  of the \<^verbatim>\<open>async\<close> method.
\<close>

definition getTradeVolume ::
  "library \<Rightarrow> ('e, 'r) transport \<Rightarrow> int \<Rightarrow> jsobj option \<Rightarrow> state
     \<Rightarrow> ('e rejection + 'r) \<times> state" where
  "getTradeVolume L axios now queryParams s =
     (let nonce = generateNonce now;
          params =
            (case queryParams of
               Some q \<Rightarrow> [(''nonce'', Num nonce), (''pair'', get q ''pair'')]
             | None \<Rightarrow> [(''nonce'', Num nonce)])
      in case queryParams of
           None \<Rightarrow> (Inl TypeError, s)
         | Some q \<Rightarrow>
             postToPrivateEndpoint L axios ''TradeVolume''
               (set_prop ''fee-info'' (get q ''fee-info'') params) None s)"

text \<open>
  \<^verbatim>\<open>addStandardOrder\<close> (lines 525 to 544):
  \<^verbatim>\<open>
  const nonce    = generateNonce();
  const required = (({ pair, type, ordertype }) =>
      ({ nonce, pair, type, ordertype }))(queryParams);
  const optional = (({ price, price2, volume, leverage, oflags, starttm, expiretm, userref, validate }) =>
      ({ price, price2, volume, leverage, oflags, starttm, expiretm, userref, validate }))(queryParams);
  const optionalClose = ((orderParams: IAddOrderParams) => ({
      'close[type]'  : orderParams['close[type]'],
      'close[price]' : orderParams['close[price]'],
      'close[price2]': orderParams['close[price2]'],
  }))(queryParams);
  const params = { ...required, ...optional, ...optionalClose };
  return this.rawAgent.postToPrivateEndpoint('AddOrder', params);
  \<close>
\<close>

definition addStandardOrder ::
  "library \<Rightarrow> ('e, 'r) transport \<Rightarrow> int \<Rightarrow> jsobj \<Rightarrow> state
     \<Rightarrow> ('e rejection + 'r) \<times> state" where
  "addStandardOrder L axios now queryParams s =
     (let nonce = generateNonce now;
          required =
            [(''nonce'', Num nonce),
             (''pair'', get queryParams ''pair''),
             (''type'', get queryParams ''type''),
             (''ordertype'', get queryParams ''ordertype'')];
          optional =
            [(''price'', get queryParams ''price''),
             (''price2'', get queryParams ''price2''),
             (''volume'', get queryParams ''volume''),
             (''leverage'', get queryParams ''leverage''),
             (''oflags'', get queryParams ''oflags''),
             (''starttm'', get queryParams ''starttm''),
             (''expiretm'', get queryParams ''expiretm''),
             (''userref'', get queryParams ''userref''),
             (''validate'', get queryParams ''validate'')];
          optionalClose =
            [(''close[type]'', get queryParams ''close[type]''),
             (''close[price]'', get queryParams ''close[price]''),
             (''close[price2]'', get queryParams ''close[price2]'')];
          params = spread (spread (spread [] required) optional) optionalClose
      in postToPrivateEndpoint L axios ''AddOrder'' params None s)"

definition cancelOpenOrder ::
  "library \<Rightarrow> ('e, 'r) transport \<Rightarrow> int \<Rightarrow> jsobj \<Rightarrow> state
     \<Rightarrow> ('e rejection + 'r) \<times> state" where
  "cancelOpenOrder L axios now queryParams s =
     (let nonce = generateNonce now;
          params =
            [(''nonce'', Num nonce),
             (''txid'', get queryParams ''txid'')]
      in postToPrivateEndpoint L axios ''CancelOrder'' params None s)"

text \<open>
  \<^verbatim>\<open>getDepositMethods\<close> (lines 554 to 560) and the five funding methods after
  \<^verbatim>\<open>getDepositAddresses\<close> (lines 575 to 613) have the same body:
  \<^verbatim>\<open>
  const nonce  = generateNonce();
  const params = (({ aclass, asset }) => ({ nonce, aclass, asset }))(queryParams);
  return this.rawAgent.postToPrivateEndpoint('DepositMethods', params);
  \<close>
\<close>

definition getDepositMethods ::
  "library \<Rightarrow> ('e, 'r) transport \<Rightarrow> int \<Rightarrow> jsobj \<Rightarrow> state
     \<Rightarrow> ('e rejection + 'r) \<times> state" where
  "getDepositMethods L axios now queryParams s =
     (let nonce = generateNonce now;
          params =
            [(''nonce'', Num nonce),
             (''aclass'', get queryParams ''aclass''),
             (''asset'', get queryParams ''asset'')]
      in postToPrivateEndpoint L axios ''DepositMethods'' params None s)"

text \<open>
  \<^verbatim>\<open>getDepositAddresses\<close> (lines 562 to 573):
  \<^verbatim>\<open>
  const nonce  = generateNonce();
  const params = (({ aclass, asset, method }) => ({ nonce, aclass, asset, method }))(queryParams);
  params['new'] = queryParams['new'];
  return this.rawAgent.postToPrivateEndpoint('DepositAddresses', params);
  \<close>
\<close>

definition getDepositAddresses ::
  "library \<Rightarrow> ('e, 'r) transport \<Rightarrow> int \<Rightarrow> jsobj \<Rightarrow> state
     \<Rightarrow> ('e rejection + 'r) \<times> state" where
  "getDepositAddresses L axios now queryParams s =
     (let nonce = generateNonce now;
          params =
            [(''nonce'', Num nonce),
             (''aclass'', get queryParams ''aclass''),
             (''asset'', get queryParams ''asset''),
             (''method'', get queryParams ''method'')]
      in postToPrivateEndpoint L axios ''DepositAddresses''
           (set_prop ''new'' (get queryParams ''new'') params) None s)"

definition getStatusOfRecentDeposits ::
  "library \<Rightarrow> ('e, 'r) transport \<Rightarrow> int \<Rightarrow> jsobj \<Rightarrow> state
     \<Rightarrow> ('e rejection + 'r) \<times> state" where
  "getStatusOfRecentDeposits L axios now queryParams s =
     (let nonce = generateNonce now;
          params =
            [(''nonce'', Num nonce),
             (''aclass'', get queryParams ''aclass''),
             (''asset'', get queryParams ''asset'')]
      in postToPrivateEndpoint L axios ''DepositMethods'' params None s)"

definition getWithdrawalInformation ::
  "library \<Rightarrow> ('e, 'r) transport \<Rightarrow> int \<Rightarrow> jsobj \<Rightarrow> state
     \<Rightarrow> ('e rejection + 'r) \<times> state" where
  "getWithdrawalInformation L axios now queryParams s =
     (let nonce = generateNonce now;
          params =
            [(''nonce'', Num nonce),
             (''aclass'', get queryParams ''aclass''),
             (''asset'', get queryParams ''asset'')]
      in postToPrivateEndpoint L axios ''DepositMethods'' params None s)"

definition withdrawFunds ::
  "library \<Rightarrow> ('e, 'r) transport \<Rightarrow> int \<Rightarrow> jsobj \<Rightarrow> state
     \<Rightarrow> ('e rejection + 'r) \<times> state" where
  "withdrawFunds L axios now queryParams s =
     (let nonce = generateNonce now;
          params =
            [(''nonce'', Num nonce),
             (''aclass'', get queryParams ''aclass''),
             (''asset'', get queryParams ''asset'')]
      in postToPrivateEndpoint L axios ''DepositMethods'' params None s)"

definition getStatusOfRecentWithdrawals ::
  "library \<Rightarrow> ('e, 'r) transport \<Rightarrow> int \<Rightarrow> jsobj \<Rightarrow> state
     \<Rightarrow> ('e rejection + 'r) \<times> state" where
  "getStatusOfRecentWithdrawals L axios now queryParams s =
     (let nonce = generateNonce now;
          params =
            [(''nonce'', Num nonce),
             (''aclass'', get queryParams ''aclass''),
             (''asset'', get queryParams ''asset'')]
      in postToPrivateEndpoint L axios ''DepositMethods'' params None s)"

definition requestWithdrawalCancellation ::
  "library \<Rightarrow> ('e, 'r) transport \<Rightarrow> int \<Rightarrow> jsobj \<Rightarrow> state
     \<Rightarrow> ('e rejection + 'r) \<times> state" where
  "requestWithdrawalCancellation L axios now queryParams s =
     (let nonce = generateNonce now;
          params =
            [(''nonce'', Num nonce),
             (''aclass'', get queryParams ''aclass''),
             (''asset'', get queryParams ''asset'')]
      in postToPrivateEndpoint L axios ''DepositMethods'' params None s)"

section \<open>Well-formed base64\<close>

text \<open>
  The client never inspects a key. The following predicate says what a validly
  encoded key is (the alphabet of RFC 4648, padded with \<^verbatim>\<open>=\<close> to a multiple of four
  characters); it is only used to state what happens to a key that is not.
\<close>

definition base64_char :: "char \<Rightarrow> bool" where
  "base64_char c =
     (c \<in> set ''ABCDEFGHIJKLMNOPQRSTUVWXYZabcdefghijklmnopqrstuvwxyz0123456789+/'')"

definition valid_base64 :: "string \<Rightarrow> bool" where
  "valid_base64 s =
     (let body = takeWhile (\<lambda>c. c \<noteq> CHR ''='') s;
          padding = dropWhile (\<lambda>c. c \<noteq> CHR ''='') s
      in length s mod 4 = 0 \<and> list_all base64_char body \<and>
         (padding = [] \<or> padding = ''='' \<or> padding = ''==''))"

section \<open>The signer: C1\<close>

lemma byte_of_char_of_byte: "byte_of_char (char_of_byte b) = b"
proof -
  have "unat b < 256"
    using unsigned_less [of b] by simp
  then have "(of_char (char_of (unat b)) :: nat) = unat b"
    by simp
  then show ?thesis
    by (simp add: byte_of_char_def char_of_byte_def)
qed

lemma latin1_encode_decode: "latin1_encode (latin1_decode bs) = bs"
  by (induction bs) (simp_all add: latin1_encode_def latin1_decode_def byte_of_char_of_byte)

lemma latin1_encode_append: "latin1_encode (s @ t) = latin1_encode s @ latin1_encode t"
  by (simp add: latin1_encode_def)

lemma decimal_example: "decimal 1616492376594000 = ''1616492376594000''"
  by (simp add: decimal_def digits.simps digit_def)

lemma number_to_string_safe:
  "\<bar>i\<bar> \<le> 9007199254740992 \<Longrightarrow> number_to_string L i = decimal i"
  by (simp add: number_to_string_def)

lemma number_to_string_example:
  "number_to_string L 1616492376594000 = ''1616492376594000''"
  by (simp add: number_to_string_safe decimal_example)

text \<open>
  C1. For every path, every body whose \<^verbatim>\<open>nonce\<close> is a number and every key string,
  \<^verbatim>\<open>signMessage\<close> returns the base64 rendering of the HMAC-SHA512, keyed with the
  base64-decoded private key, of the bytes of the path (one byte per character,
  the \<^verbatim>\<open>latin1\<close> encoding the code asks for) followed by the raw SHA-256 digest of
  the nonce as a string followed by the query string of the body. The string of
  the nonce is the one JavaScript prints for the number; up to \<open>2\<^sup>5\<^sup>3\<close> in
  magnitude, which covers every nonce \<^verbatim>\<open>generateNonce\<close> returns before the year
  2255, it is the plain decimal. The digest goes through a string on its way
  (\<^verbatim>\<open>digest('latin1')\<close>, then \<^verbatim>\<open>update(_, 'latin1')\<close>); that round trip loses nothing.
\<close>

theorem signMessage_is_hmac_of_path_and_digest:
  assumes "get postBody ''nonce'' = Num n"
  shows "signMessage L path postBody key =
           base64_encode L
             (hmac_sha512 L (buffer_from_base64 L key)
                (latin1_encode path @
                 sha256 L
                   (utf8_encode (number_to_string L n @ qs_stringify L (Some postBody))))) \<and>
         (\<bar>n\<bar> \<le> 9007199254740992 \<longrightarrow> number_to_string L n = decimal n)"
  using assms
  by (simp add: signMessage_def Let_def latin1_encode_append latin1_encode_decode
      number_to_string_safe)

theorem signMessage_is_hmac_of_path_and_digest_witness:
  "\<forall>L. get [(''nonce'', Num 1616492376594000)] ''nonce'' = Num 1616492376594000 \<and>
       \<bar>1616492376594000 :: int\<bar> \<le> 9007199254740992 \<and>
       signMessage L ''/0/private/Balance'' [(''nonce'', Num 1616492376594000)]
           ''cHJpdmF0ZWtleQ=='' =
         base64_encode L
           (hmac_sha512 L (buffer_from_base64 L ''cHJpdmF0ZWtleQ=='')
              (latin1_encode ''/0/private/Balance'' @
               sha256 L (utf8_encode (''1616492376594000'' @
                 qs_stringify L (Some [(''nonce'', Num 1616492376594000)]))))) \<and>
       number_to_string L 1616492376594000 = ''1616492376594000''"
proof (intro allI)
  fix L
  have nonce: "get [(''nonce'', Num 1616492376594000)] ''nonce'' = Num 1616492376594000"
    by (simp add: get_def)
  have safe: "\<bar>1616492376594000 :: int\<bar> \<le> 9007199254740992"
    by simp
  note t = signMessage_is_hmac_of_path_and_digest
      [OF nonce, of L "''/0/private/Balance''" "''cHJpdmF0ZWtleQ==''"]
  from t safe have printed: "number_to_string L 1616492376594000 = decimal 1616492376594000"
    by blast
  from t have signed:
    "signMessage L ''/0/private/Balance'' [(''nonce'', Num 1616492376594000)]
         ''cHJpdmF0ZWtleQ=='' =
       base64_encode L
         (hmac_sha512 L (buffer_from_base64 L ''cHJpdmF0ZWtleQ=='')
            (latin1_encode ''/0/private/Balance'' @
             sha256 L (utf8_encode (number_to_string L 1616492376594000 @
               qs_stringify L (Some [(''nonce'', Num 1616492376594000)])))))"
    by (rule conjunct1)
  show "get [(''nonce'', Num 1616492376594000)] ''nonce'' = Num 1616492376594000 \<and>
       \<bar>1616492376594000 :: int\<bar> \<le> 9007199254740992 \<and>
       signMessage L ''/0/private/Balance'' [(''nonce'', Num 1616492376594000)]
           ''cHJpdmF0ZWtleQ=='' =
         base64_encode L
           (hmac_sha512 L (buffer_from_base64 L ''cHJpdmF0ZWtleQ=='')
              (latin1_encode ''/0/private/Balance'' @
               sha256 L (utf8_encode (''1616492376594000'' @
                 qs_stringify L (Some [(''nonce'', Num 1616492376594000)]))))) \<and>
       number_to_string L 1616492376594000 = ''1616492376594000''"
    using nonce safe signed printed
    by (simp only: decimal_example simp_thms)
qed

section \<open>Objects: reading after writing\<close>



section \<open>Facts about the configuration\<close>



lemma version_default: "to_string L (get (merge_config None) ''version'') = ''0''"
  by (simp add: merge_config_def own_props_def spread_def defaultConfig_def get_def
      number_to_string_def decimal_def digits.simps digit_def)


lemma privateAgentConfig_headers:
  "spread [] (headers privateAgentConfig) =
     [(''User-Agent'', Str ''Kraken API Client (kraken-cryptoexchange-api node package)'')]"
  by (simp add: privateAgentConfig_def defaultAgentConfig_def spread_def)

text \<open>The request an authenticated agent hands to the transport, written out.\<close>

lemma postToPrivateEndpoint_authenticated:
  assumes "auth s = Some a"
  shows "postToPrivateEndpoint L axios endpoint postBody configOverride s =
           await_axios axios
             \<lparr>baseURL = Str ''https://api.kraken.com'',
              headers =
                [(''User-Agent'', Str ''Kraken API Client (kraken-cryptoexchange-api node package)''),
                 (''API-Key'', Str (publicKey a)),
                 (''API-Sign'',
                  Str (signMessage L
                         (''/'' @ to_string L (get (merge_config configOverride) ''version'') @
                          ''/private/'' @ endpoint)
                         postBody (privateKey a)))],
              http_method = ''POST'',
              timeout = Num 15000,
              url = Some (''/'' @ to_string L (get (merge_config configOverride) ''version'') @
                          ''/private/'' @ endpoint),
              data = Some (qs_stringify L (Some postBody))\<rparr> s"
  using assms
  by (simp add: postToPrivateEndpoint_def isUpgraded_def Let_def privateAgentConfig_headers)
     (simp add: privateAgentConfig_def defaultAgentConfig_def defaultConfig_def get_def)

section \<open>The nonce generator: C2\<close>

text \<open>Up to 53 bits nothing is rounded; beyond, 53 bits remain.\<close>

lemma excess_bits_small: "m < 9007199254740992 \<Longrightarrow> excess_bits m = 0"
  by (simp add: excess_bits.simps)

lemma excess_bits_step:
  "9007199254740992 \<le> m \<Longrightarrow> excess_bits m = Suc (excess_bits (m div 2))"
  by (simp add: excess_bits.simps [of m])

lemma excess_bits_div:
  "9007199254740992 \<le> m \<Longrightarrow>
     4503599627370496 \<le> m div 2 ^ excess_bits m \<and> 0 < excess_bits m"
proof (induction m rule: excess_bits.induct)
  case (1 m)
  show ?case
  proof (cases "m div 2 < 9007199254740992")
    case True
    then have "excess_bits (m div 2) = 0"
      by (rule excess_bits_small)
    with 1 show ?thesis
      by (simp add: excess_bits.simps [of m])
  next
    case False
    then have ih: "4503599627370496 \<le> (m div 2) div 2 ^ excess_bits (m div 2)"
      using 1 by simp
    have "m div 2 ^ Suc (excess_bits (m div 2)) = (m div 2) div 2 ^ excess_bits (m div 2)"
      by (simp add: div_mult2_eq)
    with ih 1 show ?thesis
      by (simp add: excess_bits.simps [of m])
  qed
qed

lemma round_to_double_exact: "\<bar>x\<bar> < 9007199254740992 \<Longrightarrow> round_to_double x = x"
proof -
  assume "\<bar>x\<bar> < 9007199254740992"
  then have "nat \<bar>x\<bar> < 9007199254740992"
    by simp
  then have "excess_bits (nat \<bar>x\<bar>) = 0"
    by (rule excess_bits_small)
  then show ?thesis
    by (simp add: round_to_double_def Let_def mult_sgn_abs)
qed

lemma round_to_double_large:
  assumes "9007199254740992 \<le> \<bar>x\<bar>"
  shows "9007199254740992 \<le> \<bar>round_to_double x\<bar>"
proof -
  let ?m = "nat \<bar>x\<bar>"
  let ?sh = "excess_bits ?m"
  let ?q = "?m div 2 ^ ?sh"
  have m: "9007199254740992 \<le> ?m"
    using assms by simp
  from excess_bits_div [OF m] have q: "4503599627370496 \<le> ?q" and sh: "0 < ?sh"
    by simp_all
  from sh have "(2::nat) \<le> 2 ^ ?sh"
    by (cases ?sh) simp_all
  with q have "4503599627370496 * 2 \<le> ?q * 2 ^ ?sh"
    by (rule mult_le_mono)
  then have lo: "9007199254740992 \<le> ?q * 2 ^ ?sh"
    by simp
  have "?q * 2 ^ ?sh \<le> (?q + 1) * 2 ^ ?sh"
    by simp
  with lo have hi: "9007199254740992 \<le> (?q + 1) * 2 ^ ?sh"
    by linarith
  have "x \<noteq> 0"
    using assms by auto
  then have s: "\<bar>sgn x\<bar> = 1"
    by (simp add: abs_sgn_eq)
  show ?thesis
    using lo hi s
    by (simp add: round_to_double_def Let_def abs_mult del: of_nat_mult of_nat_add of_nat_power)
qed

text \<open>
  While \<^verbatim>\<open>Date.now()\<close> is at most 9007199254740 (the year 2255), the product is
  below \<open>2\<^sup>5\<^sup>3\<close> and exact.
\<close>

lemma generateNonce_exact:
  "\<bar>now\<bar> \<le> 9007199254740 \<Longrightarrow> generateNonce now = now * 1000"
  unfolding generateNonce_def
  by (rule round_to_double_exact) (simp add: abs_mult)

lemma generateNonce_example: "generateNonce 1616492376594 = 1616492376594000"
  by (simp add: generateNonce_exact)

lemma generateNonce_not_42: "generateNonce now \<noteq> 42"
proof (cases "\<bar>now * 1000\<bar> < 9007199254740992")
  case True
  then have "generateNonce now = now * 1000"
    unfolding generateNonce_def by (rule round_to_double_exact)
  moreover have "now * 1000 \<noteq> 42"
  proof
    assume "now * 1000 = 42"
    then have "(1000::int) dvd 42"
      by (metis dvd_triv_right)
    then show False
      by simp
  qed
  ultimately show ?thesis
    by simp
next
  case False
  then have "9007199254740992 \<le> \<bar>round_to_double (now * 1000)\<bar>"
    by (intro round_to_double_large) simp
  then show ?thesis
    unfolding generateNonce_def by auto
qed

text \<open>
  Beyond that range the product is rounded, and late in the range of \<^verbatim>\<open>Date\<close> two
  consecutive milliseconds give the same nonce.
\<close>

lemma generateNonce_rounds:
  "generateNonce 4611686018427413 = 4611686018427413504 \<and>
   generateNonce 4611686018427414 = 4611686018427413504"
proof -
  have "excess_bits 4611686018427413000 = 10" "excess_bits 4611686018427414000 = 10"
    by (simp_all add: excess_bits_step excess_bits_small)
  then show ?thesis
    by (simp add: generateNonce_def round_to_double_def Let_def)
qed

text \<open>
  C2 as stated fails: two calls of \<^verbatim>\<open>generateNonce\<close> that read the same clock value
  (the same millisecond) return the same nonce, so the sequence is not strictly
  increasing.
\<close>

theorem generateNonce_same_tick_counterexample:
  "nonces [1616492376594, 1616492376594] = [1616492376594000, 1616492376594000] \<and>
   \<not> sorted_wrt (<) (nonces [1616492376594, 1616492376594])"
  by (simp add: nonces_def generateNonce_example)

text \<open>
  C2, amended. While the clock readings are at most 9007199254740 ms in magnitude
  (until the year 2255, where \<^verbatim>\<open>Date.now() * 1000\<close> is exact), the nonces of
  successive calls are strictly increasing exactly when the clock readings of
  those calls are: a later call returns a greater nonce if and only if it reads
  a later millisecond. The generator keeps no counter and no memory of earlier
  values.
\<close>

theorem nonces_strictly_increasing_iff_clock:
  assumes "\<forall>t \<in> set clock_readings. \<bar>t\<bar> \<le> 9007199254740"
  shows "sorted_wrt (<) (nonces clock_readings) = sorted_wrt (<) clock_readings"
proof -
  have "nonces clock_readings = map (\<lambda>t. t * 1000) clock_readings"
    unfolding nonces_def using assms by (intro map_cong refl) (simp add: generateNonce_exact)
  then show ?thesis
    by (simp add: sorted_wrt_map)
qed

theorem nonces_strictly_increasing_iff_clock_witness:
  "\<bar>1616492376594 :: int\<bar> \<le> 9007199254740 \<and> \<bar>1616492376595 :: int\<bar> \<le> 9007199254740 \<and>
   sorted_wrt (<) (nonces [1616492376594, 1616492376595]) \<and>
   \<not> sorted_wrt (<) (nonces [1616492376595, 1616492376594])"
proof -
  have up: "\<forall>t \<in> set [1616492376594, 1616492376595 :: int]. \<bar>t\<bar> \<le> 9007199254740"
    by simp
  have down: "\<forall>t \<in> set [1616492376595, 1616492376594 :: int]. \<bar>t\<bar> \<le> 9007199254740"
    by simp
  show ?thesis
    using nonces_strictly_increasing_iff_clock [OF up]
      nonces_strictly_increasing_iff_clock [OF down]
    by simp
qed

section \<open>Private calls without credentials: C3\<close>

text \<open>
  C3. When the agent holds no credentials, \<^verbatim>\<open>postToPrivateEndpoint\<close> rejects with
  the reason \<^verbatim>\<open>api keys are required to access private endpoints\<close> (the
  ``not authenticated'' error), and the state is unchanged: the credentials are
  still absent and no request has been handed to the transport.
\<close>

theorem postToPrivateEndpoint_rejects_without_credentials:
  "\<not> truthy (isUpgraded s) \<Longrightarrow>
   postToPrivateEndpoint L axios endpoint postBody configOverride s =
     (Inl (Rejected ''api keys are required to access private endpoints''), s)"
  by (simp add: truthy_def postToPrivateEndpoint_def)

theorem postToPrivateEndpoint_rejects_without_credentials_witness:
  "\<forall>L (axios :: request \<Rightarrow> 'e + 'r).
     \<not> truthy (isUpgraded (getRawAgent None)) \<and>
     postToPrivateEndpoint L axios ''Balance'' [(''nonce'', Num 1616492376594000)] None
         (getRawAgent None) =
       (Inl (Rejected ''api keys are required to access private endpoints''), getRawAgent None) \<and>
     sent (getRawAgent None) = []"
proof (intro allI)
  fix L and axios :: "request \<Rightarrow> 'e + 'r"
  have h: "\<not> truthy (isUpgraded (getRawAgent None))"
    by (simp add: truthy_def isUpgraded_def getRawAgent_def)
  show "\<not> truthy (isUpgraded (getRawAgent None)) \<and>
     postToPrivateEndpoint L axios ''Balance'' [(''nonce'', Num 1616492376594000)] None
         (getRawAgent None) =
       (Inl (Rejected ''api keys are required to access private endpoints''), getRawAgent None) \<and>
     sent (getRawAgent None) = []"
    using h postToPrivateEndpoint_rejects_without_credentials
        [OF h, of L axios "''Balance''" "[(''nonce'', Num 1616492376594000)]" None]
    by (simp add: getRawAgent_def)
qed

section \<open>Where the nonce comes from: C4\<close>

text \<open>
  C4 as stated fails: \<^verbatim>\<open>postToPrivateEndpoint\<close> generates no nonce. Called with the
  body \<^verbatim>\<open>{ nonce: 42 }\<close> it signs and transmits exactly that object, and 42 is not
  a value the generator returns at any clock reading.
\<close>

theorem postToPrivateEndpoint_nonce_counterexample:
  "\<forall>L (axios :: request \<Rightarrow> 'e + 'r).
     map (\<lambda>r. (data r, get (headers r) ''API-Sign''))
       (sent (snd (postToPrivateEndpoint L axios ''Balance'' [(''nonce'', Num 42)] None
          (getRawAgent (Some \<lparr>publicKey = ''pk'', privateKey = ''cHJpdmF0ZWtleQ==''\<rparr>))))) =
       [(Some (qs_stringify L (Some [(''nonce'', Num 42)])),
         Str (signMessage L ''/0/private/Balance'' [(''nonce'', Num 42)] ''cHJpdmF0ZWtleQ==''))] \<and>
     (\<forall>now. generateNonce now \<noteq> 42)"
proof (intro allI conjI)
  fix L and axios :: "request \<Rightarrow> 'e + 'r"
  let ?a = "\<lparr>publicKey = ''pk'', privateKey = ''cHJpdmF0ZWtleQ==''\<rparr>"
  have h: "auth (getRawAgent (Some ?a)) = Some ?a"
    by (simp add: getRawAgent_def)
  show "map (\<lambda>r. (data r, get (headers r) ''API-Sign''))
       (sent (snd (postToPrivateEndpoint L axios ''Balance'' [(''nonce'', Num 42)] None
          (getRawAgent (Some ?a))))) =
       [(Some (qs_stringify L (Some [(''nonce'', Num 42)])),
         Str (signMessage L ''/0/private/Balance'' [(''nonce'', Num 42)] ''cHJpdmF0ZWtleQ==''))]"
    unfolding postToPrivateEndpoint_authenticated [OF h]
    by (simp add: await_axios_def getRawAgent_def version_default) (simp add: get_def)
next
  fix now :: int
  show "generateNonce now \<noteq> 42"
    by (rule generateNonce_not_42)
qed

text \<open>
  What each private method of the client passes to the agent: the nonce it has
  just generated, first, and the fields it picks from its parameter object.
\<close>

lemma endpoint_methods_bodies:
  "getAccountBalance L axios now s =
     postToPrivateEndpoint L axios ''Balance'' [(''nonce'', Num (generateNonce now))] None s \<and>
   getTradeBalance L axios now q_balance s =
     postToPrivateEndpoint L axios ''TradeBalance''
       (case q_balance of
          Some q \<Rightarrow>
            [(''nonce'', Num (generateNonce now)),
             (''aclass'', get q ''aclass''),
             (''asset'', get q ''asset'')]
        | None \<Rightarrow> [(''nonce'', Num (generateNonce now))]) None s \<and>
   getOpenOrders L axios now q_open s =
     postToPrivateEndpoint L axios ''OpenOrders''
       (case q_open of
          Some q \<Rightarrow>
            [(''nonce'', Num (generateNonce now)),
             (''trades'', get q ''trades''),
             (''userref'', get q ''userref'')]
        | None \<Rightarrow> [(''nonce'', Num (generateNonce now))]) None s \<and>
   getClosedOrders L axios now q_closed s =
     postToPrivateEndpoint L axios ''ClosedOrders''
       (case q_closed of
          Some q \<Rightarrow>
            [(''nonce'', Num (generateNonce now)),
             (''trades'', get q ''trades''),
             (''userref'', get q ''userref''),
             (''start'', get q ''start''),
             (''end'', get q ''end''),
             (''ofs'', get q ''ofs''),
             (''closetime'', get q ''closetime'')]
        | None \<Rightarrow> [(''nonce'', Num (generateNonce now))]) None s \<and>
   queryOrdersInfo L axios now q_orders s =
     postToPrivateEndpoint L axios ''QueryOrders''
       (case q_orders of
          Some q \<Rightarrow>
            [(''nonce'', Num (generateNonce now)),
             (''trades'', get q ''trades''),
             (''userref'', get q ''userref''),
             (''txid'', get q ''txid'')]
        | None \<Rightarrow> [(''nonce'', Num (generateNonce now))]) None s \<and>
   getTradesHistory L axios now q_history s =
     postToPrivateEndpoint L axios ''TradesHistory''
       (case q_history of
          Some q \<Rightarrow>
            [(''nonce'', Num (generateNonce now)),
             (''type'', get q ''type''),
             (''trades'', get q ''trades''),
             (''start'', get q ''start''),
             (''end'', get q ''end''),
             (''ofs'', get q ''ofs'')]
        | None \<Rightarrow> [(''nonce'', Num (generateNonce now))]) None s \<and>
   queryTradesInfo L axios now q_trades s =
     postToPrivateEndpoint L axios ''QueryTrades''
       [(''nonce'', Num (generateNonce now)),
        (''txid'', get q_trades ''txid''),
        (''trades'', get q_trades ''trades'')] None s \<and>
   getOpenPositions L axios now q_positions s =
     postToPrivateEndpoint L axios ''OpenPositions''
       [(''nonce'', Num (generateNonce now)),
        (''txid'', get q_positions ''txid''),
        (''docalcs'', get q_positions ''docalcs'')] None s \<and>
   getLedgersInfo L axios now q_ledgers s =
     postToPrivateEndpoint L axios ''Ledgers''
       (case q_ledgers of
          Some q \<Rightarrow>
            [(''nonce'', Num (generateNonce now)),
             (''aclass'', get q ''aclass''),
             (''asset'', get q ''asset''),
             (''type'', get q ''type''),
             (''start'', get q ''start''),
             (''end'', get q ''end''),
             (''ofs'', get q ''ofs'')]
        | None \<Rightarrow> [(''nonce'', Num (generateNonce now))]) None s \<and>
   queryLedgers L axios now q_ledger s =
     postToPrivateEndpoint L axios ''QueryLedgers''
       [(''nonce'', Num (generateNonce now)),
        (''id'', get q_ledger ''id'')] None s \<and>
   getTradeVolume L axios now (Some q_volume) s =
     postToPrivateEndpoint L axios ''TradeVolume''
       [(''nonce'', Num (generateNonce now)),
        (''pair'', get q_volume ''pair''),
        (''fee-info'', get q_volume ''fee-info'')] None s \<and>
   addStandardOrder L axios now q_order s =
     postToPrivateEndpoint L axios ''AddOrder''
       [(''nonce'', Num (generateNonce now)),
        (''pair'', get q_order ''pair''),
        (''type'', get q_order ''type''),
        (''ordertype'', get q_order ''ordertype''),
        (''price'', get q_order ''price''),
        (''price2'', get q_order ''price2''),
        (''volume'', get q_order ''volume''),
        (''leverage'', get q_order ''leverage''),
        (''oflags'', get q_order ''oflags''),
        (''starttm'', get q_order ''starttm''),
        (''expiretm'', get q_order ''expiretm''),
        (''userref'', get q_order ''userref''),
        (''validate'', get q_order ''validate''),
        (''close[type]'', get q_order ''close[type]''),
        (''close[price]'', get q_order ''close[price]''),
        (''close[price2]'', get q_order ''close[price2]'')] None s \<and>
   cancelOpenOrder L axios now q_cancel s =
     postToPrivateEndpoint L axios ''CancelOrder''
       [(''nonce'', Num (generateNonce now)),
        (''txid'', get q_cancel ''txid'')] None s \<and>
   getDepositMethods L axios now q_methods s =
     postToPrivateEndpoint L axios ''DepositMethods''
       [(''nonce'', Num (generateNonce now)),
        (''aclass'', get q_methods ''aclass''),
        (''asset'', get q_methods ''asset'')] None s \<and>
   getDepositAddresses L axios now q_addresses s =
     postToPrivateEndpoint L axios ''DepositAddresses''
       [(''nonce'', Num (generateNonce now)),
        (''aclass'', get q_addresses ''aclass''),
        (''asset'', get q_addresses ''asset''),
        (''method'', get q_addresses ''method''),
        (''new'', get q_addresses ''new'')] None s \<and>
   getStatusOfRecentDeposits L axios now q_deposits s =
     postToPrivateEndpoint L axios ''DepositMethods''
       [(''nonce'', Num (generateNonce now)),
        (''aclass'', get q_deposits ''aclass''),
        (''asset'', get q_deposits ''asset'')] None s \<and>
   getWithdrawalInformation L axios now q_info s =
     postToPrivateEndpoint L axios ''DepositMethods''
       [(''nonce'', Num (generateNonce now)),
        (''aclass'', get q_info ''aclass''),
        (''asset'', get q_info ''asset'')] None s \<and>
   withdrawFunds L axios now q_withdraw s =
     postToPrivateEndpoint L axios ''DepositMethods''
       [(''nonce'', Num (generateNonce now)),
        (''aclass'', get q_withdraw ''aclass''),
        (''asset'', get q_withdraw ''asset'')] None s \<and>
   getStatusOfRecentWithdrawals L axios now q_withdrawals s =
     postToPrivateEndpoint L axios ''DepositMethods''
       [(''nonce'', Num (generateNonce now)),
        (''aclass'', get q_withdrawals ''aclass''),
        (''asset'', get q_withdrawals ''asset'')] None s \<and>
   requestWithdrawalCancellation L axios now q_cancellation s =
     postToPrivateEndpoint L axios ''DepositMethods''
       [(''nonce'', Num (generateNonce now)),
        (''aclass'', get q_cancellation ''aclass''),
        (''asset'', get q_cancellation ''asset'')] None s"
  by (simp add: getAccountBalance_def getTradeBalance_def getOpenOrders_def
      getClosedOrders_def queryOrdersInfo_def getTradesHistory_def queryTradesInfo_def
      getOpenPositions_def getLedgersInfo_def queryLedgers_def getTradeVolume_def
      addStandardOrder_def cancelOpenOrder_def getDepositMethods_def getDepositAddresses_def
      getStatusOfRecentDeposits_def getWithdrawalInformation_def withdrawFunds_def
      getStatusOfRecentWithdrawals_def requestWithdrawalCancellation_def spread_def Let_def)

text \<open>
  C4, amended. On an authenticated agent, \<^verbatim>\<open>postToPrivateEndpoint\<close> signs and
  transmits the body as the caller supplied it, nonce included; it neither
  generates a nonce nor merges one in. The fresh nonce comes from the client's
  endpoint methods: each of the twenty private methods calls \<^verbatim>\<open>generateNonce\<close> and
  puts the value in the \<^verbatim>\<open>nonce\<close> field of the body it passes to
  \<^verbatim>\<open>postToPrivateEndpoint\<close> (\<^verbatim>\<open>getTradeVolume\<close> when it is given its parameter object;
  without one it fails before it reaches the agent).
\<close>

theorem postToPrivateEndpoint_sends_body_as_supplied:
  assumes "auth s = Some a"
  shows
  "map (\<lambda>r. (data r, get (headers r) ''API-Sign''))
     (sent (snd (postToPrivateEndpoint L axios endpoint postBody configOverride s))) =
   map (\<lambda>r. (data r, get (headers r) ''API-Sign'')) (sent s) @
     [(Some (qs_stringify L (Some postBody)),
       Str (signMessage L
              (''/'' @ to_string L (get (merge_config configOverride) ''version'') @
               ''/private/'' @ endpoint)
              postBody (privateKey a)))] \<and>
   getAccountBalance L axios now s =
     postToPrivateEndpoint L axios ''Balance'' [(''nonce'', Num (generateNonce now))] None s \<and>
   getTradeBalance L axios now q_balance s =
     postToPrivateEndpoint L axios ''TradeBalance''
       (case q_balance of
          Some q \<Rightarrow>
            [(''nonce'', Num (generateNonce now)),
             (''aclass'', get q ''aclass''),
             (''asset'', get q ''asset'')]
        | None \<Rightarrow> [(''nonce'', Num (generateNonce now))]) None s \<and>
   getOpenOrders L axios now q_open s =
     postToPrivateEndpoint L axios ''OpenOrders''
       (case q_open of
          Some q \<Rightarrow>
            [(''nonce'', Num (generateNonce now)),
             (''trades'', get q ''trades''),
             (''userref'', get q ''userref'')]
        | None \<Rightarrow> [(''nonce'', Num (generateNonce now))]) None s \<and>
   getClosedOrders L axios now q_closed s =
     postToPrivateEndpoint L axios ''ClosedOrders''
       (case q_closed of
          Some q \<Rightarrow>
            [(''nonce'', Num (generateNonce now)),
             (''trades'', get q ''trades''),
             (''userref'', get q ''userref''),
             (''start'', get q ''start''),
             (''end'', get q ''end''),
             (''ofs'', get q ''ofs''),
             (''closetime'', get q ''closetime'')]
        | None \<Rightarrow> [(''nonce'', Num (generateNonce now))]) None s \<and>
   queryOrdersInfo L axios now q_orders s =
     postToPrivateEndpoint L axios ''QueryOrders''
       (case q_orders of
          Some q \<Rightarrow>
            [(''nonce'', Num (generateNonce now)),
             (''trades'', get q ''trades''),
             (''userref'', get q ''userref''),
             (''txid'', get q ''txid'')]
        | None \<Rightarrow> [(''nonce'', Num (generateNonce now))]) None s \<and>
   getTradesHistory L axios now q_history s =
     postToPrivateEndpoint L axios ''TradesHistory''
       (case q_history of
          Some q \<Rightarrow>
            [(''nonce'', Num (generateNonce now)),
             (''type'', get q ''type''),
             (''trades'', get q ''trades''),
             (''start'', get q ''start''),
             (''end'', get q ''end''),
             (''ofs'', get q ''ofs'')]
        | None \<Rightarrow> [(''nonce'', Num (generateNonce now))]) None s \<and>
   queryTradesInfo L axios now q_trades s =
     postToPrivateEndpoint L axios ''QueryTrades''
       [(''nonce'', Num (generateNonce now)),
        (''txid'', get q_trades ''txid''),
        (''trades'', get q_trades ''trades'')] None s \<and>
   getOpenPositions L axios now q_positions s =
     postToPrivateEndpoint L axios ''OpenPositions''
       [(''nonce'', Num (generateNonce now)),
        (''txid'', get q_positions ''txid''),
        (''docalcs'', get q_positions ''docalcs'')] None s \<and>
   getLedgersInfo L axios now q_ledgers s =
     postToPrivateEndpoint L axios ''Ledgers''
       (case q_ledgers of
          Some q \<Rightarrow>
            [(''nonce'', Num (generateNonce now)),
             (''aclass'', get q ''aclass''),
             (''asset'', get q ''asset''),
             (''type'', get q ''type''),
             (''start'', get q ''start''),
             (''end'', get q ''end''),
             (''ofs'', get q ''ofs'')]
        | None \<Rightarrow> [(''nonce'', Num (generateNonce now))]) None s \<and>
   queryLedgers L axios now q_ledger s =
     postToPrivateEndpoint L axios ''QueryLedgers''
       [(''nonce'', Num (generateNonce now)),
        (''id'', get q_ledger ''id'')] None s \<and>
   getTradeVolume L axios now (Some q_volume) s =
     postToPrivateEndpoint L axios ''TradeVolume''
       [(''nonce'', Num (generateNonce now)),
        (''pair'', get q_volume ''pair''),
        (''fee-info'', get q_volume ''fee-info'')] None s \<and>
   addStandardOrder L axios now q_order s =
     postToPrivateEndpoint L axios ''AddOrder''
       [(''nonce'', Num (generateNonce now)),
        (''pair'', get q_order ''pair''),
        (''type'', get q_order ''type''),
        (''ordertype'', get q_order ''ordertype''),
        (''price'', get q_order ''price''),
        (''price2'', get q_order ''price2''),
        (''volume'', get q_order ''volume''),
        (''leverage'', get q_order ''leverage''),
        (''oflags'', get q_order ''oflags''),
        (''starttm'', get q_order ''starttm''),
        (''expiretm'', get q_order ''expiretm''),
        (''userref'', get q_order ''userref''),
        (''validate'', get q_order ''validate''),
        (''close[type]'', get q_order ''close[type]''),
        (''close[price]'', get q_order ''close[price]''),
        (''close[price2]'', get q_order ''close[price2]'')] None s \<and>
   cancelOpenOrder L axios now q_cancel s =
     postToPrivateEndpoint L axios ''CancelOrder''
       [(''nonce'', Num (generateNonce now)),
        (''txid'', get q_cancel ''txid'')] None s \<and>
   getDepositMethods L axios now q_methods s =
     postToPrivateEndpoint L axios ''DepositMethods''
       [(''nonce'', Num (generateNonce now)),
        (''aclass'', get q_methods ''aclass''),
        (''asset'', get q_methods ''asset'')] None s \<and>
   getDepositAddresses L axios now q_addresses s =
     postToPrivateEndpoint L axios ''DepositAddresses''
       [(''nonce'', Num (generateNonce now)),
        (''aclass'', get q_addresses ''aclass''),
        (''asset'', get q_addresses ''asset''),
        (''method'', get q_addresses ''method''),
        (''new'', get q_addresses ''new'')] None s \<and>
   getStatusOfRecentDeposits L axios now q_deposits s =
     postToPrivateEndpoint L axios ''DepositMethods''
       [(''nonce'', Num (generateNonce now)),
        (''aclass'', get q_deposits ''aclass''),
        (''asset'', get q_deposits ''asset'')] None s \<and>
   getWithdrawalInformation L axios now q_info s =
     postToPrivateEndpoint L axios ''DepositMethods''
       [(''nonce'', Num (generateNonce now)),
        (''aclass'', get q_info ''aclass''),
        (''asset'', get q_info ''asset'')] None s \<and>
   withdrawFunds L axios now q_withdraw s =
     postToPrivateEndpoint L axios ''DepositMethods''
       [(''nonce'', Num (generateNonce now)),
        (''aclass'', get q_withdraw ''aclass''),
        (''asset'', get q_withdraw ''asset'')] None s \<and>
   getStatusOfRecentWithdrawals L axios now q_withdrawals s =
     postToPrivateEndpoint L axios ''DepositMethods''
       [(''nonce'', Num (generateNonce now)),
        (''aclass'', get q_withdrawals ''aclass''),
        (''asset'', get q_withdrawals ''asset'')] None s \<and>
   requestWithdrawalCancellation L axios now q_cancellation s =
     postToPrivateEndpoint L axios ''DepositMethods''
       [(''nonce'', Num (generateNonce now)),
        (''aclass'', get q_cancellation ''aclass''),
        (''asset'', get q_cancellation ''asset'')] None s"
proof -
  have sent_as_supplied: "map (\<lambda>r. (data r, get (headers r) ''API-Sign''))
     (sent (snd (postToPrivateEndpoint L axios endpoint postBody configOverride s))) =
   map (\<lambda>r. (data r, get (headers r) ''API-Sign'')) (sent s) @
     [(Some (qs_stringify L (Some postBody)),
       Str (signMessage L
              (''/'' @ to_string L (get (merge_config configOverride) ''version'') @
               ''/private/'' @ endpoint)
              postBody (privateKey a)))]"
    unfolding postToPrivateEndpoint_authenticated [OF assms]
    by (simp add: await_axios_def) (simp add: get_def)
  from sent_as_supplied endpoint_methods_bodies show ?thesis
    by (rule conjI)
qed

theorem postToPrivateEndpoint_sends_body_as_supplied_witness:
  "\<forall>L (axios :: request \<Rightarrow> 'e + 'r).
     auth (getRawAgent (Some \<lparr>publicKey = ''pk'', privateKey = ''cHJpdmF0ZWtleQ==''\<rparr>)) =
       Some \<lparr>publicKey = ''pk'', privateKey = ''cHJpdmF0ZWtleQ==''\<rparr> \<and>
     map (\<lambda>r. (data r, get (headers r) ''API-Sign''))
       (sent (snd (postToPrivateEndpoint L axios ''Balance''
          [(''nonce'', Num 1616492376594000)] None
          (getRawAgent (Some \<lparr>publicKey = ''pk'', privateKey = ''cHJpdmF0ZWtleQ==''\<rparr>))))) =
       [(Some (qs_stringify L (Some [(''nonce'', Num 1616492376594000)])),
         Str (signMessage L ''/0/private/Balance'' [(''nonce'', Num 1616492376594000)]
                ''cHJpdmF0ZWtleQ==''))] \<and>
     getAccountBalance L axios 1616492376594
        (getRawAgent (Some \<lparr>publicKey = ''pk'', privateKey = ''cHJpdmF0ZWtleQ==''\<rparr>)) =
       postToPrivateEndpoint L axios ''Balance'' [(''nonce'', Num 1616492376594000)] None
        (getRawAgent (Some \<lparr>publicKey = ''pk'', privateKey = ''cHJpdmF0ZWtleQ==''\<rparr>)) \<and>
     cancelOpenOrder L axios 1616492376594 [(''txid'', Str ''OAVY7T-MV5VK-KHDF5X'')]
        (getRawAgent (Some \<lparr>publicKey = ''pk'', privateKey = ''cHJpdmF0ZWtleQ==''\<rparr>)) =
       postToPrivateEndpoint L axios ''CancelOrder''
        [(''nonce'', Num 1616492376594000), (''txid'', Str ''OAVY7T-MV5VK-KHDF5X'')] None
        (getRawAgent (Some \<lparr>publicKey = ''pk'', privateKey = ''cHJpdmF0ZWtleQ==''\<rparr>))"
proof (intro allI)
  fix L and axios :: "request \<Rightarrow> 'e + 'r"
  let ?a = "\<lparr>publicKey = ''pk'', privateKey = ''cHJpdmF0ZWtleQ==''\<rparr>"
  let ?s = "getRawAgent (Some ?a)"
  let ?q = "[(''txid'', Str ''OAVY7T-MV5VK-KHDF5X'')]"
  have h: "auth ?s = Some ?a"
    by (simp add: getRawAgent_def)
  have g: "generateNonce 1616492376594 = 1616492376594000"
    by (rule generateNonce_example)
  have e: "sent ?s = []"
    by (simp add: getRawAgent_def)
  have k: "privateKey ?a = ''cHJpdmF0ZWtleQ==''"
    by simp
  have u: "''/'' @ to_string L (get (merge_config None) ''version'') @ ''/private/'' @ ''Balance'' =
      ''/0/private/Balance''"
    by (simp add: version_default)
  have t: "get ?q ''txid'' = Str ''OAVY7T-MV5VK-KHDF5X''"
    by (simp add: get_def)
  note inst = postToPrivateEndpoint_sends_body_as_supplied
      [OF h, where L = L and axios = axios and now = 1616492376594 and q_cancel = "?q"]
  from inst [where endpoint = "''Balance''" and postBody = "[(''nonce'', Num 1616492376594000)]"
      and configOverride = None]
  have sent_as_supplied:
    "map (\<lambda>r. (data r, get (headers r) ''API-Sign''))
       (sent (snd (postToPrivateEndpoint L axios ''Balance''
          [(''nonce'', Num 1616492376594000)] None ?s))) =
       [(Some (qs_stringify L (Some [(''nonce'', Num 1616492376594000)])),
         Str (signMessage L ''/0/private/Balance'' [(''nonce'', Num 1616492376594000)]
                ''cHJpdmF0ZWtleQ==''))]"
    by (simp only: e k u list.map append_Nil)
  from inst have balance:
    "getAccountBalance L axios 1616492376594 ?s =
       postToPrivateEndpoint L axios ''Balance'' [(''nonce'', Num 1616492376594000)] None ?s"
    by (simp only: g)
  from inst have cancel:
    "cancelOpenOrder L axios 1616492376594 ?q ?s =
       postToPrivateEndpoint L axios ''CancelOrder''
        [(''nonce'', Num 1616492376594000), (''txid'', Str ''OAVY7T-MV5VK-KHDF5X'')] None ?s"
    by (simp only: g t)
  from h sent_as_supplied balance cancel
  show "auth ?s = Some ?a \<and>
     map (\<lambda>r. (data r, get (headers r) ''API-Sign''))
       (sent (snd (postToPrivateEndpoint L axios ''Balance''
          [(''nonce'', Num 1616492376594000)] None ?s))) =
       [(Some (qs_stringify L (Some [(''nonce'', Num 1616492376594000)])),
         Str (signMessage L ''/0/private/Balance'' [(''nonce'', Num 1616492376594000)]
                ''cHJpdmF0ZWtleQ==''))] \<and>
     getAccountBalance L axios 1616492376594 ?s =
       postToPrivateEndpoint L axios ''Balance'' [(''nonce'', Num 1616492376594000)] None ?s \<and>
     cancelOpenOrder L axios 1616492376594 ?q ?s =
       postToPrivateEndpoint L axios ''CancelOrder''
        [(''nonce'', Num 1616492376594000), (''txid'', Str ''OAVY7T-MV5VK-KHDF5X'')] None ?s"
    by (intro conjI)
qed

section \<open>Keys that are not base64: C5\<close>

text \<open>
  C5 as stated fails: a key that is not valid base64 raises nothing. With the key
  \<^verbatim>\<open>not base64!\<close> the private call goes through to the transport, carrying the
  signature \<^verbatim>\<open>signMessage\<close> returned for that key.
\<close>

theorem invalid_key_counterexample:
  "\<forall>L (axios :: request \<Rightarrow> 'e + 'r).
     \<not> valid_base64 ''not base64!'' \<and>
     map (\<lambda>r. get (headers r) ''API-Sign'')
       (sent (snd (postToPrivateEndpoint L axios ''Balance''
          [(''nonce'', Num 1616492376594000)] None
          (getRawAgent (Some \<lparr>publicKey = ''pk'', privateKey = ''not base64!''\<rparr>))))) =
       [Str (signMessage L ''/0/private/Balance'' [(''nonce'', Num 1616492376594000)]
               ''not base64!'')]"
proof (intro allI conjI)
  show "\<not> valid_base64 ''not base64!''"
    by (simp add: valid_base64_def base64_char_def)
  fix L and axios :: "request \<Rightarrow> 'e + 'r"
  let ?a = "\<lparr>publicKey = ''pk'', privateKey = ''not base64!''\<rparr>"
  have h: "auth (getRawAgent (Some ?a)) = Some ?a"
    by (simp add: getRawAgent_def)
  show "map (\<lambda>r. get (headers r) ''API-Sign'')
       (sent (snd (postToPrivateEndpoint L axios ''Balance''
          [(''nonce'', Num 1616492376594000)] None (getRawAgent (Some ?a))))) =
       [Str (signMessage L ''/0/private/Balance'' [(''nonce'', Num 1616492376594000)]
               ''not base64!'')]"
    unfolding postToPrivateEndpoint_authenticated [OF h]
    by (simp add: await_axios_def getRawAgent_def version_default) (simp add: get_def)
qed

text \<open>
  C5, amended. \<^verbatim>\<open>signMessage\<close> does not validate the key: for every key string,
  validly encoded or not, it returns a signature (computed from the bytes the
  \<^verbatim>\<open>Buffer\<close> constructor yields for the key), and a private call with such
  credentials hands one request to the transport with that signature in its
  \<^verbatim>\<open>API-Sign\<close> header. No key-encoding error is raised.
\<close>

theorem postToPrivateEndpoint_signs_with_any_key:
  assumes "auth s = Some a"
  shows "\<exists>req uri.
           postToPrivateEndpoint L axios endpoint postBody configOverride s =
             await_axios axios req s \<and>
           url req = Some uri \<and>
           get (headers req) ''API-Sign'' = Str (signMessage L uri postBody (privateKey a))"
  by (intro exI conjI, rule postToPrivateEndpoint_authenticated [OF assms])
     (simp_all add: get_def)

theorem postToPrivateEndpoint_signs_with_any_key_witness:
  "\<forall>L (axios :: request \<Rightarrow> 'e + 'r).
     auth (getRawAgent (Some \<lparr>publicKey = ''pk'', privateKey = ''not base64!''\<rparr>)) =
       Some \<lparr>publicKey = ''pk'', privateKey = ''not base64!''\<rparr> \<and>
     (\<exists>req uri.
        postToPrivateEndpoint L axios ''Balance'' [(''nonce'', Num 1616492376594000)] None
            (getRawAgent (Some \<lparr>publicKey = ''pk'', privateKey = ''not base64!''\<rparr>)) =
          await_axios axios req
            (getRawAgent (Some \<lparr>publicKey = ''pk'', privateKey = ''not base64!''\<rparr>)) \<and>
        url req = Some uri \<and>
        get (headers req) ''API-Sign'' =
          Str (signMessage L uri [(''nonce'', Num 1616492376594000)] ''not base64!''))"
proof (intro allI)
  fix L and axios :: "request \<Rightarrow> 'e + 'r"
  let ?a = "\<lparr>publicKey = ''pk'', privateKey = ''not base64!''\<rparr>"
  have h: "auth (getRawAgent (Some ?a)) = Some ?a"
    by (simp add: getRawAgent_def)
  have k: "privateKey ?a = ''not base64!''"
    by simp
  show "auth (getRawAgent (Some ?a)) = Some ?a \<and>
     (\<exists>req uri.
        postToPrivateEndpoint L axios ''Balance'' [(''nonce'', Num 1616492376594000)] None
            (getRawAgent (Some ?a)) =
          await_axios axios req (getRawAgent (Some ?a)) \<and>
        url req = Some uri \<and>
        get (headers req) ''API-Sign'' =
          Str (signMessage L uri [(''nonce'', Num 1616492376594000)] ''not base64!''))"
    using h postToPrivateEndpoint_signs_with_any_key
        [OF h, of L axios "''Balance''" "[(''nonce'', Num 1616492376594000)]" None]
    by (simp only: k simp_thms)
qed

section \<open>Per-call configuration: C6\<close>




section \<open>Upgrading: C7\<close>

text \<open>
  \<^verbatim>\<open>upgrade(c)\<close> stores exactly \<^verbatim>\<open>c\<close> whatever was stored before; upgrading with
  \<^verbatim>\<open>c1\<close> and then \<^verbatim>\<open>c2\<close> leaves exactly \<^verbatim>\<open>c2\<close>, the same state as upgrading with
  \<^verbatim>\<open>c2\<close> alone. Nothing else changes.
\<close>

lemma upgrade_stores_exactly:
  "auth (upgrade c s) = Some c \<and>
   auth (upgrade c2 (upgrade c1 s)) = Some c2 \<and>
   upgrade c2 (upgrade c1 s) = upgrade c2 s \<and>
   sent (upgrade c s) = sent s"
  by (simp add: upgrade_def)

text \<open>
  C7 does not hold of \<^verbatim>\<open>isUpgraded\<close>: declared \<^verbatim>\<open>isUpgraded(): boolean\<close> and
  documented to return a boolean, the method returns \<^verbatim>\<open>this.auth\<close>. After
  \<^verbatim>\<open>upgrade(c)\<close> it returns the credentials object \<^verbatim>\<open>c\<close> itself, not \<^verbatim>\<open>true\<close>, and on
  an agent made without credentials it returns \<^verbatim>\<open>undefined\<close>, not \<^verbatim>\<open>false\<close>.
\<close>

theorem isUpgraded_returns_credentials:
  "isUpgraded
     (upgrade \<lparr>publicKey = ''pk'', privateKey = ''cHJpdmF0ZWtleQ==''\<rparr> (getRawAgent None)) =
     Some \<lparr>publicKey = ''pk'', privateKey = ''cHJpdmF0ZWtleQ==''\<rparr> \<and>
   isUpgraded (getRawAgent None) = None"
  by (simp add: isUpgraded_def upgrade_def getRawAgent_def)

section \<open>The closing order of addStandardOrder: C8\<close>

text \<open>
  C8 does not hold of \<^verbatim>\<open>addStandardOrder\<close>: the method reads \<^verbatim>\<open>close[type]\<close>, a key
  that \<^verbatim>\<open>IAddOrderParams\<close> does not declare, where the declared key is
  \<^verbatim>\<open>close[ordertype]\<close>. The caller's \<^verbatim>\<open>close[ordertype]\<close> is dropped; the body holds
  \<^verbatim>\<open>close[type]\<close>, undefined, in its place. \<^verbatim>\<open>close[price]\<close> and \<^verbatim>\<open>close[price2]\<close>
  are passed on under their own names.
\<close>

theorem addStandardOrder_drops_close_ordertype:
  "addStandardOrder L axios 1616492376594
     [(''pair'', Str ''XBTUSD''), (''type'', Str ''buy''), (''ordertype'', Str ''limit''),
      (''price'', Num 100), (''volume'', Num 1),
      (''close[ordertype]'', Str ''stop-loss-limit''),
      (''close[price]'', Num 90), (''close[price2]'', Num 85)] s =
   postToPrivateEndpoint L axios ''AddOrder''
     [(''nonce'', Num 1616492376594000),
      (''pair'', Str ''XBTUSD''), (''type'', Str ''buy''), (''ordertype'', Str ''limit''),
      (''price'', Num 100), (''price2'', Undefined), (''volume'', Num 1),
      (''leverage'', Undefined), (''oflags'', Undefined), (''starttm'', Undefined),
      (''expiretm'', Undefined), (''userref'', Undefined), (''validate'', Undefined),
      (''close[type]'', Undefined), (''close[price]'', Num 90), (''close[price2]'', Num 85)]
     None s"
  by (simp add: addStandardOrder_def spread_def get_def generateNonce_example)

section \<open>The funding methods: C9\<close>

text \<open>
  C9. \<^verbatim>\<open>getStatusOfRecentDeposits\<close>, \<^verbatim>\<open>getWithdrawalInformation\<close>, \<^verbatim>\<open>withdrawFunds\<close>,
  \<^verbatim>\<open>getStatusOfRecentWithdrawals\<close> and \<^verbatim>\<open>requestWithdrawalCancellation\<close> each post to
  the private endpoint \<^verbatim>\<open>DepositMethods\<close> with a body of the three fields
  \<^verbatim>\<open>nonce\<close>, \<^verbatim>\<open>aclass\<close> and \<^verbatim>\<open>asset\<close>. For \<^verbatim>\<open>withdrawFunds\<close> on an authenticated
  agent, the request path is \<^verbatim>\<open>/0/private/DepositMethods\<close> and the transmitted body
  is the serialisation of those three fields: \<^verbatim>\<open>key\<close> and \<^verbatim>\<open>amount\<close> are not in it.
\<close>

theorem funding_methods_post_DepositMethods:
  "getStatusOfRecentDeposits L axios now queryParams s =
     postToPrivateEndpoint L axios ''DepositMethods''
       [(''nonce'', Num (generateNonce now)),
        (''aclass'', get queryParams ''aclass''),
        (''asset'', get queryParams ''asset'')] None s \<and>
   getWithdrawalInformation L axios now queryParams s =
     postToPrivateEndpoint L axios ''DepositMethods''
       [(''nonce'', Num (generateNonce now)),
        (''aclass'', get queryParams ''aclass''),
        (''asset'', get queryParams ''asset'')] None s \<and>
   withdrawFunds L axios now queryParams s =
     postToPrivateEndpoint L axios ''DepositMethods''
       [(''nonce'', Num (generateNonce now)),
        (''aclass'', get queryParams ''aclass''),
        (''asset'', get queryParams ''asset'')] None s \<and>
   getStatusOfRecentWithdrawals L axios now queryParams s =
     postToPrivateEndpoint L axios ''DepositMethods''
       [(''nonce'', Num (generateNonce now)),
        (''aclass'', get queryParams ''aclass''),
        (''asset'', get queryParams ''asset'')] None s \<and>
   requestWithdrawalCancellation L axios now queryParams s =
     postToPrivateEndpoint L axios ''DepositMethods''
       [(''nonce'', Num (generateNonce now)),
        (''aclass'', get queryParams ''aclass''),
        (''asset'', get queryParams ''asset'')] None s \<and>
   (auth s \<noteq> None \<longrightarrow>
    map (\<lambda>r. (url r, data r)) (sent (snd (withdrawFunds L axios now queryParams s))) =
      map (\<lambda>r. (url r, data r)) (sent s) @
      [(Some ''/0/private/DepositMethods'',
        Some (qs_stringify L (Some
          [(''nonce'', Num (generateNonce now)),
           (''aclass'', get queryParams ''aclass''),
           (''asset'', get queryParams ''asset'')])))])"
proof (intro conjI impI)
  assume "auth s \<noteq> None"
  then obtain a where a: "auth s = Some a"
    by auto
  have w: "withdrawFunds L axios now queryParams s =
     postToPrivateEndpoint L axios ''DepositMethods''
       [(''nonce'', Num (generateNonce now)),
        (''aclass'', get queryParams ''aclass''),
        (''asset'', get queryParams ''asset'')] None s"
    by (simp add: withdrawFunds_def)
  show "map (\<lambda>r. (url r, data r)) (sent (snd (withdrawFunds L axios now queryParams s))) =
      map (\<lambda>r. (url r, data r)) (sent s) @
      [(Some ''/0/private/DepositMethods'',
        Some (qs_stringify L (Some
          [(''nonce'', Num (generateNonce now)),
           (''aclass'', get queryParams ''aclass''),
           (''asset'', get queryParams ''asset'')])))]"
    unfolding w postToPrivateEndpoint_authenticated [OF a]
    by (simp add: await_axios_def version_default)
qed (simp_all add: getStatusOfRecentDeposits_def getWithdrawalInformation_def withdrawFunds_def
      getStatusOfRecentWithdrawals_def requestWithdrawalCancellation_def)

theorem funding_methods_post_DepositMethods_witness:
  "\<forall>L (axios :: request \<Rightarrow> 'e + 'r).
     auth (getRawAgent (Some \<lparr>publicKey = ''pk'', privateKey = ''cHJpdmF0ZWtleQ==''\<rparr>)) \<noteq> None \<and>
     map (\<lambda>r. (url r, data r))
       (sent (snd (withdrawFunds L axios 1616492376594
          [(''asset'', Str ''XBT''), (''key'', Str ''cold wallet''), (''amount'', Num 5)]
          (getRawAgent (Some \<lparr>publicKey = ''pk'', privateKey = ''cHJpdmF0ZWtleQ==''\<rparr>))))) =
       [(Some ''/0/private/DepositMethods'',
         Some (qs_stringify L (Some
           [(''nonce'', Num 1616492376594000),
            (''aclass'', Undefined),
            (''asset'', Str ''XBT'')])))]"
proof (intro allI)
  fix L and axios :: "request \<Rightarrow> 'e + 'r"
  let ?a = "\<lparr>publicKey = ''pk'', privateKey = ''cHJpdmF0ZWtleQ==''\<rparr>"
  let ?q = "[(''asset'', Str ''XBT''), (''key'', Str ''cold wallet''), (''amount'', Num 5)]"
  have h: "auth (getRawAgent (Some ?a)) \<noteq> None"
    by (simp add: getRawAgent_def)
  have e: "sent (getRawAgent (Some ?a)) = []"
    by (simp add: getRawAgent_def)
  have g: "generateNonce 1616492376594 = 1616492376594000"
    by (rule generateNonce_example)
  have q: "get ?q ''aclass'' = Undefined" "get ?q ''asset'' = Str ''XBT''"
    by (simp_all add: get_def)
  show "auth (getRawAgent (Some ?a)) \<noteq> None \<and>
     map (\<lambda>r. (url r, data r))
       (sent (snd (withdrawFunds L axios 1616492376594 ?q (getRawAgent (Some ?a))))) =
       [(Some ''/0/private/DepositMethods'',
         Some (qs_stringify L (Some
           [(''nonce'', Num 1616492376594000),
            (''aclass'', Undefined),
            (''asset'', Str ''XBT'')])))]"
  proof
    show "auth (getRawAgent (Some ?a)) \<noteq> None"
      by (rule h)
    have "auth (getRawAgent (Some ?a)) \<noteq> None \<longrightarrow>
      map (\<lambda>r. (url r, data r))
        (sent (snd (withdrawFunds L axios 1616492376594 ?q (getRawAgent (Some ?a))))) =
      map (\<lambda>r. (url r, data r)) (sent (getRawAgent (Some ?a))) @
      [(Some ''/0/private/DepositMethods'',
        Some (qs_stringify L (Some
          [(''nonce'', Num (generateNonce 1616492376594)),
           (''aclass'', get ?q ''aclass''),
           (''asset'', get ?q ''asset'')])))]"
      using funding_methods_post_DepositMethods [of L axios 1616492376594 ?q "getRawAgent (Some ?a)"]
      by (elim conjE)
    with h show "map (\<lambda>r. (url r, data r))
       (sent (snd (withdrawFunds L axios 1616492376594 ?q (getRawAgent (Some ?a))))) =
       [(Some ''/0/private/DepositMethods'',
         Some (qs_stringify L (Some
           [(''nonce'', Num 1616492376594000),
            (''aclass'', Undefined),
            (''asset'', Str ''XBT'')])))]"
      by (simp only: g e q list.map append_Nil simp_thms)
  qed
qed

section \<open>getTradeVolume without parameters: C10\<close>

text \<open>With a parameter object the method does reach the agent.\<close>

lemma getTradeVolume_with_params:
  "getTradeVolume L axios now (Some q) s =
     postToPrivateEndpoint L axios ''TradeVolume''
       [(''nonce'', Num (generateNonce now)),
        (''pair'', get q ''pair''),
        (''fee-info'', get q ''fee-info'')] None s"
  by (simp add: getTradeVolume_def)

text \<open>
  C10. Called without its parameter object, \<^verbatim>\<open>getTradeVolume\<close> fails with the
  \<^verbatim>\<open>TypeError\<close> raised by reading \<^verbatim>\<open>queryParams['fee-info']\<close>; the state is unchanged,
  so nothing has been handed to the transport.
\<close>

theorem getTradeVolume_without_params_fails:
  "getTradeVolume L axios now None s = (Inl TypeError, s)"
  by (simp add: getTradeVolume_def)

end
